theory Spec2Isabelle
  imports Main
begin

section \<open>JavaScript values met by the plugin\<close>

text \<open>
  The plugin is an HTTP adapter over a job-queue library: its handlers read request
  parameters, call methods of queue, job and store-client objects, and reshape what those
  return. The values that flow through are plain JavaScript values. An object is kept
  as the list of its own properties in insertion order, which is the order JavaScript
  enumerates string keys in. \<open>JPromise v\<close> is a promise that was not awaited and
  resolves to \<open>v\<close>.
\<close>

datatype jsval =
    JUndefined
  | JNull
  | JBool bool
  | JNum int
  | JStr string
  | JArr "jsval list"
  | JObj "(string \<times> jsval) list"
  | JPromise jsval

type_synonym jsobj = "(string \<times> jsval) list"

text \<open>Truthiness, as tested by \<^verbatim>\<open>if (v)\<close>, \<^verbatim>\<open>!v\<close> and \<^verbatim>\<open>a || b\<close>.\<close>

fun truthy :: "jsval \<Rightarrow> bool" where
  "truthy JUndefined = False"
| "truthy JNull = False"
| "truthy (JBool b) = b"
| "truthy (JNum n) = (n \<noteq> 0)"
| "truthy (JStr s) = (s \<noteq> [])"
| "truthy (JArr _) = True"
| "truthy (JObj _) = True"
| "truthy (JPromise _) = True"

text \<open>\<^verbatim>\<open>a || b\<close>\<close>

definition js_or :: "jsval \<Rightarrow> jsval \<Rightarrow> jsval" where
  "js_or a b = (if truthy a then a else b)"

text \<open>\<^verbatim>\<open>obj[key]\<close>: the property's value, \<^verbatim>\<open>undefined\<close> when there is none.\<close>

definition get :: "jsobj \<Rightarrow> string \<Rightarrow> jsval" where
  "get obj key = (case map_of obj key of None \<Rightarrow> JUndefined | Some v \<Rightarrow> v)"

text \<open>
  \<^verbatim>\<open>obj[key] = v\<close>: an existing property keeps its place, a new one goes last.
\<close>

fun obj_set :: "jsobj \<Rightarrow> string \<Rightarrow> jsval \<Rightarrow> jsobj" where
  "obj_set [] key v = [(key, v)]"
| "obj_set ((k, w) # rest) key v =
     (if k = key then (key, v) # rest else (k, w) # obj_set rest key v)"

text \<open>A template literal \<^verbatim>\<open>`${x}...`\<close> prints an undefined \<open>x\<close> as the text "undefined".\<close>

definition template :: "string option \<Rightarrow> string" where
  "template s = (case s of None \<Rightarrow> ''undefined'' | Some t \<Rightarrow> t)"

section \<open>The collaborators: jobs, queues, the store client\<close>

text \<open>
  Jobs and queues belong to the queue library. A method of theirs is represented by the
  value its promise resolves to, as a function of the arguments of the call; the calls a
  handler makes are recorded in a log, so that a statement can say which operations were
  invoked and which were not. A rejected promise is not caught anywhere in the source and
  ends the request in the host framework; the handlers below describe the requests in
  which the library calls resolve.
\<close>

record job =
  toJSON :: jsobj
  opts :: jsobj
  retry_result :: jsval
  promote_result :: jsval

record queue =
  name :: string
  client_info :: string
  getJobCounts :: "string list \<Rightarrow> jsval"
  getJobs :: "jsval \<Rightarrow> nat \<Rightarrow> nat \<Rightarrow> job list"
  getJob :: "jsval \<Rightarrow> job option"
  clean_result :: "nat \<Rightarrow> jsval \<Rightarrow> jsval"

datatype call =
    Factory_getQueues
  | Client_info queue
  | Queue_getJobCounts queue "string list"
  | Queue_getJobs queue jsval nat nat
  | Queue_getJob queue jsval
  | Queue_clean queue nat jsval
  | Job_retry job
  | Job_promote job

section \<open>Requests and replies\<close>

text \<open>
  \<open>query\<close> is \<^verbatim>\<open>request.query\<close> (\<open>None\<close> when the host gives none: the source
  writes \<^verbatim>\<open>request.query || {}\<close>), \<open>params\<close> the path parameters.
\<close>

record request =
  query :: "jsobj option"
  params :: jsobj

text \<open>
  A handler either returns a plain value (\<open>Returned\<close>; falling off the end of the
  function returns \<^verbatim>\<open>undefined\<close>) or a response built with the toolkit,
  \<^verbatim>\<open>h.response(body).code(status)\<close>, where \<^verbatim>\<open>h.response()\<close> has body
  \<^verbatim>\<open>undefined\<close>. \<open>Threw\<close> is a TypeError raised by the handler's own code.
\<close>

datatype reply =
    Returned jsval
  | Response jsval nat
  | Threw string

section \<open>Constants of the module\<close>

definition metrics :: "string list" where
  "metrics = [''redis_version'', ''used_memory'', ''mem_fragmentation_ratio'',
              ''connected_clients'', ''blocked_clients'']"

definition statuses :: "string list" where
  "statuses = [''active'', ''completed'', ''delayed'', ''failed'', ''paused'', ''waiting'']"

definition notFound :: reply where
  "notFound = Response (JObj [(''statusCode'', JNum 404),
                              (''error'', JStr ''Not Found''),
                              (''message'', JStr ''Not Found'')]) 404"

definition formatJob :: "job \<Rightarrow> jsval" where
  "formatJob j =
     (let jobProps = toJSON j in
      JObj [(''id'', get jobProps ''id''),
            (''timestamp'', get jobProps ''timestamp''),
            (''processedOn'', get jobProps ''processedOn''),
            (''finishedOn'', get jobProps ''finishedOn''),
            (''progress'', get jobProps ''progress''),
            (''attempts'', get jobProps ''attemptsMade''),
            (''delay'', get (opts j) ''delay''),
            (''failedReason'', get jobProps ''failedReason''),
            (''stacktrace'', get jobProps ''stacktrace''),
            (''opts'', get jobProps ''opts''),
            (''data'', get jobProps ''data''),
            (''name'', get jobProps ''name'')])"

definition GRACE_TIME_MS :: nat where
  "GRACE_TIME_MS = 5000"

definition LIMIT :: nat where
  "LIMIT = 1000"

section \<open>The plugin's state\<close>

text \<open>
  \<open>plugin_options\<close> are the registration options. \<open>getQueues\<close> is the asynchronous
  factory, given by the list its promise resolves to. \<open>internals\<close> is the object the
  controller's handlers read through \<^verbatim>\<open>this.internals\<close>; its \<open>queues\<close> field is
  declared without an initial value, so it is \<open>None\<close> until \<open>onPostStart\<close> assigns it.
\<close>

record plugin_options =
  basePath :: "string option"
  getQueues :: "unit \<Rightarrow> queue list"
  routeOptions :: "jsobj option"

record internals =
  options :: plugin_options
  queues :: "queue list option"

text \<open>\<^verbatim>\<open>new Internals(options)\<close>\<close>

definition new_Internals :: "plugin_options \<Rightarrow> internals" where
  "new_Internals os = \<lparr>options = os, queues = None\<rparr>"

text \<open>
  What one handler invocation yields: the reply, the library calls it made, and the
  \<open>internals\<close> object as the handler leaves it.
\<close>

type_synonym outcome = "reply \<times> call list \<times> internals"

section \<open>QueuesController\<close>

subsection \<open>index\<close>

text \<open>
  The reduction over \<open>metrics\<close> (source lines 92 to 98), then the assignment of
  \<^verbatim>\<open>stats.total_system_memory\<close> (line 101).
\<close>

definition stats_of :: "jsobj \<Rightarrow> jsobj" where
  "stats_of redisInfo =
     (let stats = foldl (\<lambda>acc metric.
                     if truthy (get redisInfo metric)
                     then obj_set acc metric (get redisInfo metric)
                     else acc) [] metrics
      in obj_set stats ''total_system_memory''
           (js_or (get redisInfo ''total_system_memory'') (get redisInfo ''maxmemory'')))"

text \<open>Line 105: the status filter handed to \<^verbatim>\<open>getJobs\<close> for one queue.\<close>

definition status_for :: "jsobj \<Rightarrow> queue \<Rightarrow> jsval" where
  "status_for qry q =
     (if get qry (name q) = JStr ''latest'' then JArr (map JStr statuses)
      else get qry (name q))"

text \<open>Lines 103 to 113: the entry computed for one queue.\<close>

definition queue_entry :: "jsobj \<Rightarrow> queue \<Rightarrow> jsval" where
  "queue_entry qry q =
     (let counts = getJobCounts q statuses;
          status = status_for qry q;
          jobs = getJobs q status 0 10
      in JObj [(''name'', JStr (name q)),
               (''counts'', counts),
               (''jobs'', JArr (map formatJob jobs))])"

text \<open>
  \<open>parseRedisInfo\<close> is the parser of the imported \<^verbatim>\<open>redis-info\<close> package, a parameter
  here. The per-queue functions run concurrently under \<^verbatim>\<open>Promise.all\<close>: each calls
  \<^verbatim>\<open>getJobCounts\<close> when it is started, and \<^verbatim>\<open>getJobs\<close> once the counts have
  arrived. The log lists these calls in queue order; only which calls occur is meant, not
  how the host interleaves them.
\<close>

definition index :: "(string \<Rightarrow> jsobj) \<Rightarrow> internals \<Rightarrow> request \<Rightarrow> outcome" where
  "index parseRedisInfo i req =
     (case queues i of
        None \<Rightarrow> (Threw ''TypeError'', [], i)
      | Some qs \<Rightarrow>
          (case qs of
             [] \<Rightarrow> (Returned (JObj [(''stats'', JObj []), (''queues'', JArr [])]), [], i)
           | q0 # _ \<Rightarrow>
               (let qry = (case query req of None \<Rightarrow> [] | Some q \<Rightarrow> q);
                    redisInfoRaw = client_info q0;
                    redisInfo = parseRedisInfo redisInfoRaw;
                    stats = stats_of redisInfo;
                    data = map (queue_entry qry) qs
                in (Returned (JObj [(''stats'', JObj stats), (''data'', JArr data)]),
                    Client_info q0
                      # map (\<lambda>q. Queue_getJobCounts q statuses) qs
                      @ map (\<lambda>q. Queue_getJobs q (status_for qry q) 0 10) qs,
                    i))))"

subsection \<open>retryAll, retry, promote, clean\<close>

definition retryAll :: "internals \<Rightarrow> request \<Rightarrow> outcome" where
  "retryAll i req =
     (case queues i of
        None \<Rightarrow> (Threw ''TypeError'', [], i)
      | Some qs \<Rightarrow>
          (let queueName = get (params req) ''queue'' in
           case find (\<lambda>q. JStr (name q) = queueName) qs of
             None \<Rightarrow> (notFound, [], i)
           | Some q \<Rightarrow> (Returned JUndefined, [], i)))"

definition retry :: "internals \<Rightarrow> request \<Rightarrow> outcome" where
  "retry i req =
     (case queues i of
        None \<Rightarrow> (Threw ''TypeError'', [], i)
      | Some qs \<Rightarrow>
          (let queueName = get (params req) ''queue'';
               jobId = get (params req) ''job'' in
           case find (\<lambda>q. JStr (name q) = queueName) qs of
             None \<Rightarrow> (notFound, [], i)
           | Some q \<Rightarrow>
               (case getJob q jobId of
                  None \<Rightarrow> (notFound, [Queue_getJob q jobId], i)
                | Some j \<Rightarrow>
                    (Response JUndefined 204, [Queue_getJob q jobId, Job_retry j], i))))"

definition promote :: "internals \<Rightarrow> request \<Rightarrow> outcome" where
  "promote i req =
     (case queues i of
        None \<Rightarrow> (Threw ''TypeError'', [], i)
      | Some qs \<Rightarrow>
          (let queueName = get (params req) ''queue'';
               jobId = get (params req) ''job'' in
           case find (\<lambda>q. JStr (name q) = queueName) qs of
             None \<Rightarrow> (notFound, [], i)
           | Some q \<Rightarrow>
               (case getJob q jobId of
                  None \<Rightarrow> (notFound, [Queue_getJob q jobId], i)
                | Some j \<Rightarrow>
                    (Response JUndefined 204, [Queue_getJob q jobId, Job_promote j], i))))"

definition clean :: "internals \<Rightarrow> request \<Rightarrow> outcome" where
  "clean i req =
     (case queues i of
        None \<Rightarrow> (Threw ''TypeError'', [], i)
      | Some qs \<Rightarrow>
          (let queueName = get (params req) ''queue'';
               status = get (params req) ''status'' in
           case find (\<lambda>q. JStr (name q) = queueName) qs of
             None \<Rightarrow> (notFound, [], i)
           | Some q \<Rightarrow>
               (Response JUndefined 200, [Queue_clean q GRACE_TIME_MS status], i)))"

section \<open>Internals.onPostStart: the route table\<close>

datatype http_method = GET | PUT

datatype handler_name = Index | RetryAll | Retry | Promote | Clean

text \<open>
  One entry of the array given to \<^verbatim>\<open>server.route\<close>. \<open>bound\<close> tells whether the
  handler was registered as \<^verbatim>\<open>controller.f.bind(controller)\<close> or as the bare method.
\<close>

record route =
  route_method :: http_method
  path :: string
  handler :: handler_name
  bound :: bool
  route_options :: jsobj

record server =
  routes :: "route list"

text \<open>\<^verbatim>\<open>{...this.options.routeOptions}\<close>: spreading \<^verbatim>\<open>undefined\<close> gives the empty object.\<close>

definition spread :: "jsobj option \<Rightarrow> jsobj" where
  "spread ro = (case ro of None \<Rightarrow> [] | Some obj \<Rightarrow> obj)"

definition route_table :: "plugin_options \<Rightarrow> route list" where
  "route_table os =
     (let base = template (basePath os); ro = spread (routeOptions os) in
      [\<lparr>route_method = GET, path = base @ ''/queues'',
        handler = Index, bound = True, route_options = ro\<rparr>,
       \<lparr>route_method = PUT, path = base @ ''/queues/{queue}/retry'',
        handler = RetryAll, bound = True, route_options = ro\<rparr>,
       \<lparr>route_method = PUT, path = base @ ''/queues/{queue}/clean/{status}'',
        handler = Clean, bound = True, route_options = ro\<rparr>,
       \<lparr>route_method = PUT, path = base @ ''/queues/{queue}/jobs/{job}/retry'',
        handler = Retry, bound = True, route_options = ro\<rparr>,
       \<lparr>route_method = PUT, path = base @ ''/queues/{queue}/jobs/{job}/promote'',
        handler = Promote, bound = True, route_options = ro\<rparr>])"

text \<open>
  \<open>onPostStart\<close> awaits the factory, stores its result in \<open>queues\<close> and hands the five
  routes to the server. The host fires it once, when the server has started.
\<close>

definition onPostStart :: "internals \<Rightarrow> server \<Rightarrow> internals \<times> server \<times> call list" where
  "onPostStart i srv =
     (i\<lparr>queues := Some (getQueues (options i) ())\<rparr>,
      srv\<lparr>routes := routes srv @ route_table (options i)\<rparr>,
      [Factory_getQueues])"

text \<open>
  A bound route handler, by name, and a run of the started plugin over a sequence of
  requests, each handler receiving the \<open>internals\<close> the previous one left.
\<close>

fun handle :: "(string \<Rightarrow> jsobj) \<Rightarrow> handler_name \<Rightarrow> internals \<Rightarrow> request \<Rightarrow> outcome" where
  "handle p Index i req = index p i req"
| "handle p RetryAll i req = retryAll i req"
| "handle p Retry i req = retry i req"
| "handle p Promote i req = promote i req"
| "handle p Clean i req = clean i req"

fun serve :: "(string \<Rightarrow> jsobj) \<Rightarrow> internals \<Rightarrow> (handler_name \<times> request) list
              \<Rightarrow> internals \<times> call list" where
  "serve p i [] = (i, [])"
| "serve p i ((h, req) # rest) =
     (case handle p h i req of
        (rep, cs, i') \<Rightarrow> (case serve p i' rest of (i'', cs') \<Rightarrow> (i'', cs @ cs')))"

section \<open>The plugin of lib/index.ts\<close>

text \<open>
  The second plugin file takes a static queue list in its options and gives the options
  themselves to the controller, whose handlers read them through \<^verbatim>\<open>this.options\<close>.
  Its constants \<open>metrics\<close> and \<open>statuses\<close>, its \<open>formatJob\<close> and the statements that
  build \<open>stats\<close> are the same text as above and are shared here; what differs is written
  out.

  A handler is a function of its receiver \<open>this\<close>: \<open>Some os\<close> is the controller whose
  options are \<open>os\<close>, \<open>None\<close> stands for a call without the controller as receiver.
  This file registers its handlers as bare methods, without \<^verbatim>\<open>bind\<close>, so the host
  calls them without the controller; \<open>lib_registered\<close> below is the handler of a route
  as the host calls it.
\<close>

record lib_options =
  lib_path :: "string option"
  lib_queues :: "queue list"
  lib_routeOptions :: "jsobj option"

type_synonym lib_outcome = "reply \<times> call list"

text \<open>
  Lines 92 to 102 of lib/index.ts: \<^verbatim>\<open>getJobCounts\<close> is called without
  \<^verbatim>\<open>await\<close>, so \<open>counts\<close> is the promise.
\<close>

definition lib_queue_entry :: "jsobj \<Rightarrow> queue \<Rightarrow> jsval" where
  "lib_queue_entry qry q =
     (let counts = JPromise (getJobCounts q statuses);
          status = status_for qry q;
          jobs = getJobs q status 0 10
      in JObj [(''name'', JStr (name q)),
               (''counts'', counts),
               (''jobs'', JArr (map formatJob jobs))])"

text \<open>
  The first statement of index reads \<^verbatim>\<open>this.options\<close> (lines 65 to 67): without a
  receiver that is a TypeError, raised before anything else is done.
\<close>

definition lib_index :: "(string \<Rightarrow> jsobj) \<Rightarrow> lib_options option \<Rightarrow> request \<Rightarrow> lib_outcome" where
  "lib_index parseRedisInfo this req =
     (case this of
        None \<Rightarrow> (Threw ''TypeError'', [])
      | Some os \<Rightarrow>
          (case lib_queues os of
             [] \<Rightarrow> (Returned (JObj [(''stats'', JObj []), (''queues'', JArr [])]), [])
           | q0 # _ \<Rightarrow>
               (let qry = (case query req of None \<Rightarrow> [] | Some q \<Rightarrow> q);
                    redisInfoRaw = client_info q0;
                    redisInfo = parseRedisInfo redisInfoRaw;
                    stats = stats_of redisInfo;
                    data = map (lib_queue_entry qry) (lib_queues os)
                in (Returned (JObj [(''stats'', JObj stats), (''data'', JArr data)]),
                    Client_info q0
                      # map (\<lambda>q. Queue_getJobCounts q statuses) (lib_queues os)
                      @ map (\<lambda>q. Queue_getJobs q (status_for qry q) 0 10) (lib_queues os)))))"

text \<open>
  The four other handlers have empty bodies: they read nothing, not even \<open>this\<close>, and
  return \<^verbatim>\<open>undefined\<close>.
\<close>

definition lib_retryAll :: "lib_options option \<Rightarrow> request \<Rightarrow> lib_outcome" where
  "lib_retryAll this req = (Returned JUndefined, [])"

definition lib_retry :: "lib_options option \<Rightarrow> request \<Rightarrow> lib_outcome" where
  "lib_retry this req = (Returned JUndefined, [])"

definition lib_promote :: "lib_options option \<Rightarrow> request \<Rightarrow> lib_outcome" where
  "lib_promote this req = (Returned JUndefined, [])"

definition lib_clean :: "lib_options option \<Rightarrow> request \<Rightarrow> lib_outcome" where
  "lib_clean this req = (Returned JUndefined, [])"

definition lib_route_table :: "lib_options \<Rightarrow> route list" where
  "lib_route_table os =
     (let base = template (lib_path os); ro = spread (lib_routeOptions os) in
      [\<lparr>route_method = GET, path = base @ ''/queues'',
        handler = Index, bound = False, route_options = ro\<rparr>,
       \<lparr>route_method = PUT, path = base @ ''/queues/retry'',
        handler = RetryAll, bound = False, route_options = ro\<rparr>,
       \<lparr>route_method = PUT, path = base @ ''/queues/{queue}/retry'',
        handler = Retry, bound = False, route_options = ro\<rparr>,
       \<lparr>route_method = PUT, path = base @ ''/queues/{queue}/promote'',
        handler = Promote, bound = False, route_options = ro\<rparr>,
       \<lparr>route_method = PUT, path = base @ ''/queues/{queue}/clean/{status}'',
        handler = Clean, bound = False, route_options = ro\<rparr>])"

definition lib_onPostStart :: "lib_options \<Rightarrow> server \<Rightarrow> server" where
  "lib_onPostStart os srv = srv\<lparr>routes := routes srv @ lib_route_table os\<rparr>"

text \<open>
  The handler of route \<open>r\<close> of this plugin as the host calls it: with the controller as
  receiver when the route holds a bound function, without it otherwise.
\<close>

definition lib_registered :: "(string \<Rightarrow> jsobj) \<Rightarrow> lib_options \<Rightarrow> route \<Rightarrow> request \<Rightarrow> lib_outcome" where
  "lib_registered p os r req =
     (let this = (if bound r then Some os else None) in
      case handler r of
        Index \<Rightarrow> lib_index p this req
      | RetryAll \<Rightarrow> lib_retryAll this req
      | Retry \<Rightarrow> lib_retry this req
      | Promote \<Rightarrow> lib_promote this req
      | Clean \<Rightarrow> lib_clean this req)"

section \<open>Notions used in the statements\<close>

text \<open>
  The value the specification gives for \<^verbatim>\<open>stats.total_system_memory\<close>, in its own
  words: the info's total-memory entry or, when that entry is absent, its max-memory
  entry.
\<close>

definition spec_total_system_memory :: "jsobj \<Rightarrow> jsval" where
  "spec_total_system_memory info =
     (case map_of info ''total_system_memory'' of
        Some v \<Rightarrow> v
      | None \<Rightarrow> get info ''maxmemory'')"

text \<open>Reading a property of a value that is an object.\<close>

definition js_prop :: "jsval \<Rightarrow> string \<Rightarrow> jsval" where
  "js_prop v key = (case v of JObj obj \<Rightarrow> get obj key | _ \<Rightarrow> JUndefined)"

text \<open>The \<open>stats\<close> object and the \<open>data\<close> array of an index reply.\<close>

definition stats_in :: "reply \<Rightarrow> jsobj" where
  "stats_in r = (case r of Returned v \<Rightarrow> (case js_prop v ''stats'' of JObj obj \<Rightarrow> obj | _ \<Rightarrow> [])
                         | _ \<Rightarrow> [])"

definition data_in :: "reply \<Rightarrow> jsval list" where
  "data_in r = (case r of Returned v \<Rightarrow> (case js_prop v ''data'' of JArr es \<Rightarrow> es | _ \<Rightarrow> [])
                        | _ \<Rightarrow> [])"

text \<open>What identifies a route to the host: method, path template and handler.\<close>

definition route_key :: "route \<Rightarrow> http_method \<times> string \<times> handler_name" where
  "route_key r = (route_method r, path r, handler r)"

subsection \<open>Sample collaborators\<close>

definition sample_job :: job where
  "sample_job = \<lparr>toJSON = [(''id'', JStr ''7''), (''attemptsMade'', JNum 2)],
                  opts = [(''delay'', JNum 0)],
                  retry_result = JUndefined,
                  promote_result = JUndefined\<rparr>"

definition sample_queue :: queue where
  "sample_queue = \<lparr>name = ''mail'',
                    client_info = ''raw'',
                    getJobCounts = (\<lambda>sts. JObj [(''active'', JNum 1)]),
                    getJobs = (\<lambda>st off lim. [sample_job]),
                    getJob = (\<lambda>jid. if jid = JStr ''7'' then Some sample_job else None),
                    clean_result = (\<lambda>grace st. JArr [])\<rparr>"

text \<open>A second queue of the same name that holds no job.\<close>

definition sample_queue_no_jobs :: queue where
  "sample_queue_no_jobs = \<lparr>name = ''mail'',
                            client_info = ''raw'',
                            getJobCounts = (\<lambda>sts. JObj [(''active'', JNum 0)]),
                            getJobs = (\<lambda>st off lim. []),
                            getJob = (\<lambda>jid. None),
                            clean_result = (\<lambda>grace st. JArr [])\<rparr>"

text \<open>A parse result in which the total-memory entry is present and is the empty string.\<close>

definition sample_parse :: "string \<Rightarrow> jsobj" where
  "sample_parse raw = [(''used_memory'', JStr ''5''),
                       (''total_system_memory'', JStr ''''),
                       (''maxmemory'', JStr ''1024'')]"

definition sample_options :: plugin_options where
  "sample_options = \<lparr>basePath = Some ''/admin'',
                      getQueues = (\<lambda>u. [sample_queue]),
                      routeOptions = None\<rparr>"

definition sample_internals :: internals where
  "sample_internals = \<lparr>options = sample_options, queues = Some [sample_queue]\<rparr>"

definition sample_lib_options :: lib_options where
  "sample_lib_options = \<lparr>lib_path = Some ''/admin'',
                          lib_queues = [sample_queue],
                          lib_routeOptions = None\<rparr>"

text \<open>
  Requests: for job 7 of queue mail, for a job that queue does not have, and for a queue
  that is not managed.
\<close>

definition sample_request :: request where
  "sample_request = \<lparr>query = Some [(''mail'', JStr ''latest'')],
                      params = [(''queue'', JStr ''mail''), (''job'', JStr ''7''),
                                (''status'', JStr ''failed'')]\<rparr>"

definition sample_request_no_job :: request where
  "sample_request_no_job = \<lparr>query = None,
                             params = [(''queue'', JStr ''mail''), (''job'', JStr ''8'')]\<rparr>"

definition sample_request_no_queue :: request where
  "sample_request_no_queue = \<lparr>query = None,
                               params = [(''queue'', JStr ''sms''), (''job'', JStr ''7''),
                                         (''status'', JStr ''failed'')]\<rparr>"

section \<open>Auxiliary facts\<close>

lemma obj_set_fresh: "key \<notin> fst ` set obj \<Longrightarrow> obj_set obj key v = obj @ [(key, v)]"
  by (induction obj) auto

text \<open>
  The reduction over a list of distinct names, none of them set before, appends one
  property per name whose info entry is truthy.
\<close>

lemma foldl_metrics:
  "distinct ms \<Longrightarrow> set ms \<inter> fst ` set acc = {} \<Longrightarrow>
   foldl (\<lambda>acc metric. if truthy (get info metric)
                        then obj_set acc metric (get info metric) else acc) acc ms
   = acc @ map (\<lambda>m. (m, get info m)) (filter (\<lambda>m. truthy (get info m)) ms)"
proof (induction ms arbitrary: acc)
  case Nil
  then show ?case by simp
next
  case (Cons m ms)
  have fresh: "m \<notin> fst ` set acc" using Cons.prems(2) by auto
  show ?case
  proof (cases "truthy (get info m)")
    case True
    have disj: "set ms \<inter> fst ` set (acc @ [(m, get info m)]) = {}"
      using Cons.prems by auto
    from Cons.IH [OF _ disj] Cons.prems(1) True fresh show ?thesis
      by (simp add: obj_set_fresh)
  next
    case False
    have disj: "set ms \<inter> fst ` set acc = {}" using Cons.prems(2) by auto
    from Cons.IH [OF _ disj] Cons.prems(1) False show ?thesis by simp
  qed
qed

lemma stats_of_eq:
  "stats_of info =
     map (\<lambda>m. (m, get info m)) (filter (\<lambda>m. truthy (get info m)) metrics)
     @ [(''total_system_memory'',
         if truthy (get info ''total_system_memory'') then get info ''total_system_memory''
         else get info ''maxmemory'')]"
proof -
  have d: "distinct metrics" by (simp add: metrics_def)
  have n: "''total_system_memory''
             \<notin> fst ` set (map (\<lambda>m. (m, get info m)) (filter (\<lambda>m. truthy (get info m)) metrics))"
    by (auto simp: metrics_def)
  show ?thesis
    unfolding stats_of_def Let_def
    using foldl_metrics [OF d, of "[]" info] n
    by (simp add: obj_set_fresh js_or_def)
qed

lemma index_nonempty:
  "index p (i\<lparr>queues := Some (q0 # qs)\<rparr>) req =
     (Returned (JObj [(''stats'', JObj (stats_of (p (client_info q0)))),
                      (''data'', JArr (map (queue_entry (case query req of None \<Rightarrow> [] | Some q \<Rightarrow> q))
                                         (q0 # qs)))]),
      Client_info q0
        # map (\<lambda>q. Queue_getJobCounts q statuses) (q0 # qs)
        @ map (\<lambda>q. Queue_getJobs q (status_for (case query req of None \<Rightarrow> [] | Some q \<Rightarrow> q) q) 0 10)
              (q0 # qs),
      i\<lparr>queues := Some (q0 # qs)\<rparr>)"
  by (simp add: index_def Let_def)

lemma find_None_name:
  "(\<forall>q\<in>set qs. JStr (name q) \<noteq> n) \<Longrightarrow> find (\<lambda>q. JStr (name q) = n) qs = None"
  by (simp add: find_None_iff)

text \<open>No handler changes the \<open>internals\<close> object, and none calls the factory.\<close>

lemma handle_keeps_internals: "snd (snd (handle p h i req)) = i"
  by (cases h)
     (auto simp: index_def retryAll_def retry_def promote_def clean_def Let_def
           split: option.splits list.splits)

lemma handle_no_factory: "Factory_getQueues \<notin> set (fst (snd (handle p h i req)))"
  by (cases h)
     (auto simp: index_def retryAll_def retry_def promote_def clean_def Let_def
           split: option.splits list.splits)

lemma serve_keeps_internals: "fst (serve p i reqs) = i"
proof (induction reqs arbitrary: i)
  case Nil
  then show ?case by simp
next
  case (Cons hr reqs)
  obtain h req where hr: "hr = (h, req)" by (cases hr)
  obtain rep cs i' where out: "handle p h i req = (rep, cs, i')" by (cases "handle p h i req")
  from out handle_keeps_internals [of p h i req] have same: "i' = i" by simp
  from Cons.IH [of i] hr out same show ?case by (auto split: prod.splits)
qed

lemma serve_no_factory: "Factory_getQueues \<notin> set (snd (serve p i reqs))"
proof (induction reqs arbitrary: i)
  case Nil
  then show ?case by simp
next
  case (Cons hr reqs)
  obtain h req where hr: "hr = (h, req)" by (cases hr)
  obtain rep cs i' where out: "handle p h i req = (rep, cs, i')" by (cases "handle p h i req")
  from out handle_no_factory [of p h i req] have nocall: "Factory_getQueues \<notin> set cs" by simp
  from Cons.IH [of i'] hr out nocall show ?case by (auto split: prod.splits)
qed

section \<open>The index handler\<close>

text \<open>
  Claim C1, as amended. For every non-empty queue list, the \<open>stats\<close> object returned by
  the index handler holds, in allow-list order, exactly the allow-listed metrics
  (\<open>redis_version\<close>, \<open>used_memory\<close>, \<open>mem_fragmentation_ratio\<close>, \<open>connected_clients\<close>,
  \<open>blocked_clients\<close>) whose entry in the parsed info of the first queue's client is
  truthy, each with that entry as its value, followed by the key \<open>total_system_memory\<close>.
  The value of that key is the info's \<open>total_system_memory\<close> entry when that entry is
  truthy, and the info's \<open>maxmemory\<close> entry otherwise, that is, when the total is absent
  or present but falsy, such as the empty string.
\<close>

theorem index_stats:
  "metrics = [''redis_version'', ''used_memory'', ''mem_fragmentation_ratio'',
              ''connected_clients'', ''blocked_clients'']
   \<and> stats_in (fst (index p (i\<lparr>queues := Some (q0 # qs)\<rparr>) req)) =
       map (\<lambda>m. (m, get (p (client_info q0)) m))
           (filter (\<lambda>m. truthy (get (p (client_info q0)) m)) metrics)
       @ [(''total_system_memory'',
           if truthy (get (p (client_info q0)) ''total_system_memory'')
           then get (p (client_info q0)) ''total_system_memory''
           else get (p (client_info q0)) ''maxmemory'')]
   \<and> fst ` set (stats_in (fst (index p (i\<lparr>queues := Some (q0 # qs)\<rparr>) req))) =
       {m \<in> set metrics. truthy (get (p (client_info q0)) m)} \<union> {''total_system_memory''}"
proof -
  have shape: "stats_in (fst (index p (i\<lparr>queues := Some (q0 # qs)\<rparr>) req))
               = stats_of (p (client_info q0))"
    by (simp add: index_nonempty stats_in_def js_prop_def get_def)
  have keys: "fst ` set (stats_of (p (client_info q0))) =
       {m \<in> set metrics. truthy (get (p (client_info q0)) m)} \<union> {''total_system_memory''}"
    unfolding stats_of_eq by (auto simp: image_iff)
  show ?thesis
    unfolding shape using keys by (simp add: stats_of_eq metrics_def)
qed

text \<open>
  Claim C1 as it is written fails where the info has a \<open>total_system_memory\<close> entry that
  is the empty string: the entry is not absent, and the handler still reports the
  \<open>maxmemory\<close> entry.
\<close>

theorem index_stats_counterexample:
  "get (stats_in (fst (index sample_parse sample_internals sample_request)))
       ''total_system_memory'' = JStr ''1024''
   \<and> spec_total_system_memory (sample_parse (client_info sample_queue)) = JStr ''''
   \<and> get (stats_in (fst (index sample_parse sample_internals sample_request)))
          ''total_system_memory''
       \<noteq> spec_total_system_memory (sample_parse (client_info sample_queue))"
proof -
  have si: "sample_internals = sample_internals\<lparr>queues := Some (sample_queue # [])\<rparr>"
    by (simp add: sample_internals_def)
  have "stats_in (fst (index sample_parse sample_internals sample_request))
        = stats_of (sample_parse (client_info sample_queue))"
    by (subst si) (simp add: index_nonempty stats_in_def js_prop_def get_def)
  then show ?thesis
    by (simp add: stats_of_eq sample_parse_def metrics_def get_def
          spec_total_system_memory_def)
qed

text \<open>
  Claim C2. For every non-empty queue list and every query, the \<open>data\<close> array of the
  index reply has one entry per queue, in the order of the queue list. The entry of a
  queue carries its name, the result of \<open>getJobCounts\<close> called with exactly the six
  statuses active, completed, delayed, failed, paused, waiting, and the formatted jobs
  of \<open>getJobs\<close> called with offset 0 and limit 10 and with the status filter derived
  from the query: the array of the six statuses when the query value under the queue's
  name is the string "latest", and otherwise that query value as it is (undefined when
  there is none). The library calls made are the info command on the first queue's
  client and these two calls for each queue.
\<close>

theorem index_data:
  "(let qry = (case query req of None \<Rightarrow> [] | Some obj \<Rightarrow> obj);
        six = [''active'', ''completed'', ''delayed'', ''failed'', ''paused'', ''waiting''];
        filter_of = (\<lambda>q. if get qry (name q) = JStr ''latest'' then JArr (map JStr six)
                          else get qry (name q))
    in data_in (fst (index p (i\<lparr>queues := Some (q0 # qs)\<rparr>) req)) =
         map (\<lambda>q. JObj [(''name'', JStr (name q)),
                         (''counts'', getJobCounts q six),
                         (''jobs'', JArr (map formatJob (getJobs q (filter_of q) 0 10)))])
             (q0 # qs)
       \<and> set (fst (snd (index p (i\<lparr>queues := Some (q0 # qs)\<rparr>) req))) =
           {Client_info q0}
           \<union> (\<lambda>q. Queue_getJobCounts q six) ` set (q0 # qs)
           \<union> (\<lambda>q. Queue_getJobs q (filter_of q) 0 10) ` set (q0 # qs))"
proof -
  let ?qry = "case query req of None \<Rightarrow> [] | Some obj \<Rightarrow> obj"
  let ?six = "[''active'', ''completed'', ''delayed'', ''failed'', ''paused'', ''waiting'']"
  let ?filter_of = "\<lambda>q. if get ?qry (name q) = JStr ''latest'' then JArr (map JStr ?six)
                          else get ?qry (name q)"
  let ?out = "index p (i\<lparr>queues := Some (q0 # qs)\<rparr>) req"
  have filt: "status_for ?qry q = ?filter_of q" for q
    by (simp add: status_for_def statuses_def)
  have entry: "queue_entry ?qry q =
                 JObj [(''name'', JStr (name q)),
                       (''counts'', getJobCounts q ?six),
                       (''jobs'', JArr (map formatJob (getJobs q (?filter_of q) 0 10)))]" for q
    unfolding queue_entry_def Let_def filt by (simp add: statuses_def)
  have data: "data_in (fst ?out) = map (queue_entry ?qry) (q0 # qs)"
    unfolding index_nonempty by (simp add: data_in_def js_prop_def get_def)
  have log: "fst (snd ?out) =
               Client_info q0 # map (\<lambda>q. Queue_getJobCounts q ?six) (q0 # qs)
                 @ map (\<lambda>q. Queue_getJobs q (?filter_of q) 0 10) (q0 # qs)"
    unfolding index_nonempty filt by (simp add: statuses_def)
  have calls: "set (fst (snd ?out)) =
                 {Client_info q0}
                 \<union> (\<lambda>q. Queue_getJobCounts q ?six) ` set (q0 # qs)
                 \<union> (\<lambda>q. Queue_getJobs q (?filter_of q) 0 10) ` set (q0 # qs)"
    unfolding log by (simp only: set_simps set_append set_map) blast
  show ?thesis
    unfolding Let_def using data calls entry by (simp only: map_eq_conv) simp
qed

text \<open>
  Claim C6. For the empty queue list the index handler returns exactly the object
  \<open>{stats: {}, queues: []}\<close> and makes no library call: no info command, no job-count
  fetch, no job listing.
\<close>

theorem index_empty:
  "index p (i\<lparr>queues := Some []\<rparr>) req =
     (Returned (JObj [(''stats'', JObj []), (''queues'', JArr [])]), [],
      i\<lparr>queues := Some []\<rparr>)"
  by (simp add: index_def)

section \<open>The handlers that act on one queue or one job\<close>

text \<open>
  In the statements below the queue that a request names is the first queue of the list
  whose name equals the \<open>queue\<close> path parameter, as \<^verbatim>\<open>queues.find\<close> returns it.
\<close>

text \<open>
  Claim C3. The retry and the promote handler return HTTP 404 with exactly the body
  \<open>{statusCode: 404, error: "Not Found", message: "Not Found"}\<close> when no queue of the
  list has the requested name, and also when the queue exists but its job lookup by the
  given id returns nothing. In the first case no library call is made at all, in the
  second the job lookup is the only call: no retry and no promote is invoked on any job.
\<close>

theorem retry_promote_not_found:
  "((\<forall>q\<in>set qs. JStr (name q) \<noteq> get (params req) ''queue'') \<longrightarrow>
      retry (i\<lparr>queues := Some qs\<rparr>) req =
        (Response (JObj [(''statusCode'', JNum 404), (''error'', JStr ''Not Found''),
                         (''message'', JStr ''Not Found'')]) 404,
         [], i\<lparr>queues := Some qs\<rparr>)
    \<and> promote (i\<lparr>queues := Some qs\<rparr>) req =
        (Response (JObj [(''statusCode'', JNum 404), (''error'', JStr ''Not Found''),
                         (''message'', JStr ''Not Found'')]) 404,
         [], i\<lparr>queues := Some qs\<rparr>))
   \<and> (find (\<lambda>q. JStr (name q) = get (params req) ''queue'') qs = Some q
       \<and> getJob q (get (params req) ''job'') = None \<longrightarrow>
      retry (i\<lparr>queues := Some qs\<rparr>) req =
        (Response (JObj [(''statusCode'', JNum 404), (''error'', JStr ''Not Found''),
                         (''message'', JStr ''Not Found'')]) 404,
         [Queue_getJob q (get (params req) ''job'')], i\<lparr>queues := Some qs\<rparr>)
    \<and> promote (i\<lparr>queues := Some qs\<rparr>) req =
        (Response (JObj [(''statusCode'', JNum 404), (''error'', JStr ''Not Found''),
                         (''message'', JStr ''Not Found'')]) 404,
         [Queue_getJob q (get (params req) ''job'')], i\<lparr>queues := Some qs\<rparr>))"
  by (simp add: retry_def promote_def notFound_def find_None_name)

theorem retry_promote_not_found_witness:
  "retry sample_internals sample_request_no_queue =
     (Response (JObj [(''statusCode'', JNum 404), (''error'', JStr ''Not Found''),
                      (''message'', JStr ''Not Found'')]) 404, [], sample_internals)
   \<and> promote sample_internals sample_request_no_job =
     (Response (JObj [(''statusCode'', JNum 404), (''error'', JStr ''Not Found''),
                      (''message'', JStr ''Not Found'')]) 404,
      [Queue_getJob sample_queue (JStr ''8'')], sample_internals)"
  using retry_promote_not_found
          [of "[sample_queue]" sample_request_no_queue sample_internals]
        retry_promote_not_found
          [of "[sample_queue]" sample_request_no_job sample_internals sample_queue]
  by (simp add: sample_internals_def sample_request_no_queue_def sample_request_no_job_def
        sample_queue_def get_def)

text \<open>
  Claim C4, as amended. When the first queue of the list with the requested name, the one
  the handler's lookup returns, has a job under the given id, the retry handler looks the
  job up, invokes retry on that job exactly once and returns HTTP 204 with an empty body;
  the promote handler, under the same precondition, invokes promote on that job exactly
  once and returns HTTP 204 with an empty body.
\<close>

theorem retry_promote_found:
  assumes "find (\<lambda>q. JStr (name q) = get (params req) ''queue'') qs = Some q"
    and "getJob q (get (params req) ''job'') = Some j"
  shows "retry (i\<lparr>queues := Some qs\<rparr>) req =
           (Response JUndefined 204,
            [Queue_getJob q (get (params req) ''job''), Job_retry j],
            i\<lparr>queues := Some qs\<rparr>)
         \<and> promote (i\<lparr>queues := Some qs\<rparr>) req =
           (Response JUndefined 204,
            [Queue_getJob q (get (params req) ''job''), Job_promote j],
            i\<lparr>queues := Some qs\<rparr>)
         \<and> count_list (fst (snd (retry (i\<lparr>queues := Some qs\<rparr>) req))) (Job_retry j) = 1
         \<and> count_list (fst (snd (promote (i\<lparr>queues := Some qs\<rparr>) req))) (Job_promote j) = 1"
  using assms by (simp add: retry_def promote_def)

theorem retry_promote_found_witness:
  "retry sample_internals sample_request =
     (Response JUndefined 204,
      [Queue_getJob sample_queue (JStr ''7''), Job_retry sample_job], sample_internals)
   \<and> promote sample_internals sample_request =
     (Response JUndefined 204,
      [Queue_getJob sample_queue (JStr ''7''), Job_promote sample_job], sample_internals)"
proof -
  have found: "find (\<lambda>q. JStr (name q) = get (params sample_request) ''queue'') [sample_queue]
               = Some sample_queue"
    by (simp add: sample_request_def sample_queue_def get_def)
  have job: "getJob sample_queue (get (params sample_request) ''job'') = Some sample_job"
    by (simp add: sample_request_def sample_queue_def get_def)
  have jid: "get (params sample_request) ''job'' = JStr ''7''"
    by (simp add: sample_request_def get_def)
  have si: "sample_internals\<lparr>queues := Some [sample_queue]\<rparr> = sample_internals"
    by (simp add: sample_internals_def)
  from retry_promote_found [OF found job, of sample_internals] show ?thesis
    unfolding si jid by simp
qed

text \<open>
  Claim C4 as it is written fails where two queues share a name. In the list of a queue
  mail that has no job followed by a queue mail that has job 7, there is a queue with the
  requested name whose job lookup returns a job; the handlers ask the first queue only,
  return HTTP 404 and invoke neither retry nor promote.
\<close>

theorem retry_promote_found_counterexample:
  "sample_queue \<in> set [sample_queue_no_jobs, sample_queue]
   \<and> JStr (name sample_queue) = get (params sample_request) ''queue''
   \<and> getJob sample_queue (get (params sample_request) ''job'') = Some sample_job
   \<and> retry (sample_internals\<lparr>queues := Some [sample_queue_no_jobs, sample_queue]\<rparr>)
        sample_request =
       (Response (JObj [(''statusCode'', JNum 404), (''error'', JStr ''Not Found''),
                        (''message'', JStr ''Not Found'')]) 404,
        [Queue_getJob sample_queue_no_jobs (JStr ''7'')],
        sample_internals\<lparr>queues := Some [sample_queue_no_jobs, sample_queue]\<rparr>)
   \<and> promote (sample_internals\<lparr>queues := Some [sample_queue_no_jobs, sample_queue]\<rparr>)
        sample_request =
       (Response (JObj [(''statusCode'', JNum 404), (''error'', JStr ''Not Found''),
                        (''message'', JStr ''Not Found'')]) 404,
        [Queue_getJob sample_queue_no_jobs (JStr ''7'')],
        sample_internals\<lparr>queues := Some [sample_queue_no_jobs, sample_queue]\<rparr>)"
  by (simp add: retry_def promote_def notFound_def sample_request_def sample_queue_def
        sample_queue_no_jobs_def get_def Let_def)

text \<open>
  Claim C5. When the list has a queue with the requested name, the clean handler invokes
  that queue's clean operation exactly once, with a grace period of exactly 5000
  milliseconds and the \<open>status\<close> path parameter as it came, and returns HTTP 200
  whatever clean returns. When no queue has the requested name it returns the fixed 404
  body and invokes nothing.
\<close>

theorem clean_queue:
  "(find (\<lambda>q. JStr (name q) = get (params req) ''queue'') qs = Some q \<longrightarrow>
      clean (i\<lparr>queues := Some qs\<rparr>) req =
        (Response JUndefined 200, [Queue_clean q 5000 (get (params req) ''status'')],
         i\<lparr>queues := Some qs\<rparr>))
   \<and> ((\<forall>q\<in>set qs. JStr (name q) \<noteq> get (params req) ''queue'') \<longrightarrow>
      clean (i\<lparr>queues := Some qs\<rparr>) req =
        (Response (JObj [(''statusCode'', JNum 404), (''error'', JStr ''Not Found''),
                         (''message'', JStr ''Not Found'')]) 404,
         [], i\<lparr>queues := Some qs\<rparr>))"
  by (simp add: clean_def notFound_def find_None_name GRACE_TIME_MS_def)

theorem clean_queue_witness:
  "clean sample_internals sample_request =
     (Response JUndefined 200, [Queue_clean sample_queue 5000 (JStr ''failed'')],
      sample_internals)
   \<and> clean sample_internals sample_request_no_queue =
     (Response (JObj [(''statusCode'', JNum 404), (''error'', JStr ''Not Found''),
                      (''message'', JStr ''Not Found'')]) 404, [], sample_internals)"
  using clean_queue [of sample_request "[sample_queue]" sample_queue sample_internals]
        clean_queue [of sample_request_no_queue "[sample_queue]" sample_queue sample_internals]
  by (simp add: sample_internals_def sample_request_def sample_request_no_queue_def
        sample_queue_def get_def)

text \<open>
  Claim C8. The retryAll handler returns HTTP 404 with the fixed not-found body when no
  queue of the list has the requested name. For a queue that is found it invokes no
  operation, neither a bulk retry nor any other, and builds no response: the handler's
  value is \<open>undefined\<close>.
\<close>

theorem retryAll_queue:
  "((\<forall>q\<in>set qs. JStr (name q) \<noteq> get (params req) ''queue'') \<longrightarrow>
      retryAll (i\<lparr>queues := Some qs\<rparr>) req =
        (Response (JObj [(''statusCode'', JNum 404), (''error'', JStr ''Not Found''),
                         (''message'', JStr ''Not Found'')]) 404,
         [], i\<lparr>queues := Some qs\<rparr>))
   \<and> (find (\<lambda>q. JStr (name q) = get (params req) ''queue'') qs = Some q \<longrightarrow>
      retryAll (i\<lparr>queues := Some qs\<rparr>) req =
        (Returned JUndefined, [], i\<lparr>queues := Some qs\<rparr>))"
  by (simp add: retryAll_def notFound_def find_None_name)

theorem retryAll_queue_witness:
  "retryAll sample_internals sample_request_no_queue =
     (Response (JObj [(''statusCode'', JNum 404), (''error'', JStr ''Not Found''),
                      (''message'', JStr ''Not Found'')]) 404, [], sample_internals)
   \<and> retryAll sample_internals sample_request = (Returned JUndefined, [], sample_internals)"
  using retryAll_queue [of "[sample_queue]" sample_request_no_queue sample_internals sample_queue]
        retryAll_queue [of "[sample_queue]" sample_request sample_internals sample_queue]
  by (simp add: sample_internals_def sample_request_def sample_request_no_queue_def
        sample_queue_def get_def)

section \<open>Startup\<close>

text \<open>
  Claim C7. On startup the plugin hands exactly five routes to the server, with these
  methods, path templates and handlers, \<open>b\<close> being the configured base path:
  GET \<open>b/queues\<close> bound to index, PUT \<open>b/queues/{queue}/retry\<close> bound to retryAll,
  PUT \<open>b/queues/{queue}/clean/{status}\<close> bound to clean,
  PUT \<open>b/queues/{queue}/jobs/{job}/retry\<close> bound to retry and
  PUT \<open>b/queues/{queue}/jobs/{job}/promote\<close> bound to promote.
\<close>

theorem onPostStart_routes:
  "map route_key
       (routes (fst (snd (onPostStart (i\<lparr>options := os\<lparr>basePath := Some b\<rparr>\<rparr>) srv)))) =
     map route_key (routes srv)
     @ [(GET, b @ ''/queues'', Index),
        (PUT, b @ ''/queues/{queue}/retry'', RetryAll),
        (PUT, b @ ''/queues/{queue}/clean/{status}'', Clean),
        (PUT, b @ ''/queues/{queue}/jobs/{job}/retry'', Retry),
        (PUT, b @ ''/queues/{queue}/jobs/{job}/promote'', Promote)]
   \<and> length (routes (fst (snd (onPostStart (i\<lparr>options := os\<lparr>basePath := Some b\<rparr>\<rparr>) srv)))) =
     length (routes srv) + 5"
  by (simp add: onPostStart_def route_table_def route_key_def template_def Let_def)

text \<open>
  Claim C9. Starting the plugin calls the \<open>getQueues\<close> factory exactly once and stores
  its result as the queue list. Every handler (index, retryAll, retry, promote, clean)
  leaves the \<open>internals\<close> object as it found it, so after any sequence of requests the
  queue list is still the factory's result, element for element and in the same order,
  and the factory has been called once in all.
\<close>

theorem queues_resolved_once:
  "fst (onPostStart (new_Internals os) srv) = \<lparr>options = os, queues = Some (getQueues os ())\<rparr>
   \<and> snd (snd (onPostStart (new_Internals os) srv)) = [Factory_getQueues]
   \<and> snd (snd (handle p h i req)) = i
   \<and> fst (serve p (fst (onPostStart (new_Internals os) srv)) reqs) =
       \<lparr>options = os, queues = Some (getQueues os ())\<rparr>
   \<and> count_list (snd (snd (onPostStart (new_Internals os) srv))
                  @ snd (serve p (fst (onPostStart (new_Internals os) srv)) reqs))
        Factory_getQueues = 1"
proof -
  have start: "fst (onPostStart (new_Internals os) srv) =
                 \<lparr>options = os, queues = Some (getQueues os ())\<rparr>"
    by (simp add: onPostStart_def new_Internals_def)
  have log: "snd (snd (onPostStart (new_Internals os) srv)) = [Factory_getQueues]"
    by (simp add: onPostStart_def)
  have later: "count_list (snd (serve p (fst (onPostStart (new_Internals os) srv)) reqs))
                 Factory_getQueues = 0"
    using serve_no_factory by (simp add: count_list_0_iff)
  show ?thesis
    unfolding serve_keeps_internals log
    using start later handle_keeps_internals by simp
qed

section \<open>The two plugin files compared\<close>

text \<open>
  Claim C10, as amended. The two plugin files agree as far as this. The retryAll handler
  of lib/index.ts returns the same value as the other file's, \<open>undefined\<close>, and like it
  invokes nothing, when the queue is found. The retryAll, retry, promote and clean
  handlers of lib/index.ts have empty bodies: whatever the receiver, the queue list and
  the request, they return \<open>undefined\<close> and invoke nothing. Each plugin registers five
  routes, binding the same five handlers under the same methods; with the same base path
  the routes the two tables share are exactly GET \<open>b/queues\<close> for index and
  PUT \<open>b/queues/{queue}/clean/{status}\<close> for clean. Nothing is stated here of the index
  handler of lib/index.ts.
\<close>

theorem lib_plugin_agreement:
  "(find (\<lambda>q. JStr (name q) = get (params req) ''queue'') ks = Some q \<longrightarrow>
        fst (lib_retryAll this req) = fst (retryAll (i\<lparr>queues := Some ks\<rparr>) req)
        \<and> snd (lib_retryAll this req) = fst (snd (retryAll (i\<lparr>queues := Some ks\<rparr>) req)))
   \<and> lib_retryAll this req = (Returned JUndefined, [])
   \<and> lib_retry this req = (Returned JUndefined, [])
   \<and> lib_promote this req = (Returned JUndefined, [])
   \<and> lib_clean this req = (Returned JUndefined, [])
   \<and> length (lib_route_table los) = 5
   \<and> length (route_table os) = 5
   \<and> set (map (\<lambda>r. (route_method r, handler r)) (lib_route_table los)) =
       set (map (\<lambda>r. (route_method r, handler r)) (route_table os))
   \<and> set (map route_key (lib_route_table (los\<lparr>lib_path := Some b\<rparr>)))
       \<inter> set (map route_key (route_table (os\<lparr>basePath := Some b\<rparr>))) =
       {(GET, b @ ''/queues'', Index), (PUT, b @ ''/queues/{queue}/clean/{status}'', Clean)}"
proof -
  have found: "find (\<lambda>q. JStr (name q) = get (params req) ''queue'') ks = Some q \<longrightarrow>
        fst (lib_retryAll this req) = fst (retryAll (i\<lparr>queues := Some ks\<rparr>) req)
        \<and> snd (lib_retryAll this req) = fst (snd (retryAll (i\<lparr>queues := Some ks\<rparr>) req))"
    by (simp add: lib_retryAll_def retryAll_def)
  have stubs: "lib_retryAll this req = (Returned JUndefined, [])
               \<and> lib_retry this req = (Returned JUndefined, [])
               \<and> lib_promote this req = (Returned JUndefined, [])
               \<and> lib_clean this req = (Returned JUndefined, [])"
    by (simp add: lib_retryAll_def lib_retry_def lib_promote_def lib_clean_def)
  have sizes: "length (lib_route_table los) = 5 \<and> length (route_table os) = 5"
    by (simp add: lib_route_table_def route_table_def Let_def)
  have bindings: "set (map (\<lambda>r. (route_method r, handler r)) (lib_route_table los)) =
                  set (map (\<lambda>r. (route_method r, handler r)) (route_table os))"
    by (auto simp: lib_route_table_def route_table_def Let_def)
  have shared: "set (map route_key (lib_route_table (los\<lparr>lib_path := Some b\<rparr>)))
                \<inter> set (map route_key (route_table (os\<lparr>basePath := Some b\<rparr>))) =
                {(GET, b @ ''/queues'', Index),
                 (PUT, b @ ''/queues/{queue}/clean/{status}'', Clean)}"
    by (auto simp: lib_route_table_def route_table_def route_key_def template_def Let_def)
  from found stubs sizes bindings shared show ?thesis
    by blast
qed

theorem lib_plugin_agreement_witness:
  "fst (lib_retryAll None sample_request) = fst (retryAll sample_internals sample_request)
   \<and> snd (lib_retryAll None sample_request) =
     fst (snd (retryAll sample_internals sample_request))
   \<and> fst (retryAll sample_internals sample_request) = Returned JUndefined"
proof -
  have found: "find (\<lambda>q. JStr (name q) = get (params sample_request) ''queue'') [sample_queue]
               = Some sample_queue"
    by (simp add: sample_request_def sample_queue_def get_def)
  have si: "sample_internals\<lparr>queues := Some [sample_queue]\<rparr> = sample_internals"
    by (simp add: sample_internals_def)
  from lib_plugin_agreement
         [where req = sample_request and i = sample_internals and this = None
            and ks = "[sample_queue]" and q = sample_queue]
       found
  show ?thesis
    unfolding si by (simp add: lib_retryAll_def)
qed

text \<open>
  Claim C10 as it is written fails. The routes of lib/index.ts hold unbound handlers.
  For job 7 of the managed queue mail its retry handler, as registered, returns
  \<open>undefined\<close> and calls nothing, where the other file's handler retries the job and
  returns HTTP 204; for an unmanaged queue it returns \<open>undefined\<close> where the other
  returns HTTP 404; its index handler, as registered, raises a TypeError and calls
  nothing where the other file's returns a reply with statistics; and with the same base
  path the two route tables differ.
\<close>

theorem lib_plugin_counterexample:
  "lib_queues sample_lib_options = [sample_queue]
   \<and> queues sample_internals = Some [sample_queue]
   \<and> handler (lib_route_table sample_lib_options ! 2) = Retry
   \<and> lib_registered sample_parse sample_lib_options (lib_route_table sample_lib_options ! 2)
        sample_request = (Returned JUndefined, [])
   \<and> fst (retry sample_internals sample_request) = Response JUndefined 204
   \<and> fst (snd (retry sample_internals sample_request)) =
       [Queue_getJob sample_queue (JStr ''7''), Job_retry sample_job]
   \<and> lib_registered sample_parse sample_lib_options (lib_route_table sample_lib_options ! 2)
        sample_request_no_queue = (Returned JUndefined, [])
   \<and> fst (retry sample_internals sample_request_no_queue) =
       Response (JObj [(''statusCode'', JNum 404), (''error'', JStr ''Not Found''),
                       (''message'', JStr ''Not Found'')]) 404
   \<and> handler (lib_route_table sample_lib_options ! 0) = Index
   \<and> lib_registered sample_parse sample_lib_options (lib_route_table sample_lib_options ! 0)
        sample_request = (Threw ''TypeError'', [])
   \<and> fst (index sample_parse sample_internals sample_request) \<noteq> Threw ''TypeError''
   \<and> lib_path sample_lib_options = basePath sample_options
   \<and> map route_key (lib_route_table sample_lib_options) \<noteq>
       map route_key (route_table sample_options)"
proof -
  have si: "sample_internals = sample_internals\<lparr>queues := Some (sample_queue # [])\<rparr>"
    by (simp add: sample_internals_def)
  have idx: "fst (index sample_parse sample_internals sample_request) \<noteq> Threw ''TypeError''"
    by (subst si) (simp add: index_nonempty)
  have rest: "lib_queues sample_lib_options = [sample_queue]
   \<and> queues sample_internals = Some [sample_queue]
   \<and> handler (lib_route_table sample_lib_options ! 2) = Retry
   \<and> lib_registered sample_parse sample_lib_options (lib_route_table sample_lib_options ! 2)
        sample_request = (Returned JUndefined, [])
   \<and> fst (retry sample_internals sample_request) = Response JUndefined 204
   \<and> fst (snd (retry sample_internals sample_request)) =
       [Queue_getJob sample_queue (JStr ''7''), Job_retry sample_job]
   \<and> lib_registered sample_parse sample_lib_options (lib_route_table sample_lib_options ! 2)
        sample_request_no_queue = (Returned JUndefined, [])
   \<and> fst (retry sample_internals sample_request_no_queue) =
       Response (JObj [(''statusCode'', JNum 404), (''error'', JStr ''Not Found''),
                       (''message'', JStr ''Not Found'')]) 404
   \<and> handler (lib_route_table sample_lib_options ! 0) = Index
   \<and> lib_registered sample_parse sample_lib_options (lib_route_table sample_lib_options ! 0)
        sample_request = (Threw ''TypeError'', [])
   \<and> lib_path sample_lib_options = basePath sample_options
   \<and> map route_key (lib_route_table sample_lib_options) \<noteq>
       map route_key (route_table sample_options)"
    by (simp add: lib_registered_def lib_index_def lib_retry_def retry_def notFound_def
          sample_lib_options_def sample_internals_def sample_options_def sample_request_def
          sample_request_no_queue_def sample_queue_def get_def
          lib_route_table_def route_table_def route_key_def template_def Let_def)
  from idx rest show ?thesis by blast
qed

end
